theory Spec2Isabelle
  imports Main "HOL-Library.Sublist"
begin

section \<open>The service worker of the Space Observation Journal (sw.js)\<close>

text \<open>
  The worker is a handful of event listeners over three facilities of its host: the cache
  storage (\<^verbatim>\<open>caches\<close>), the network (\<^verbatim>\<open>fetch\<close>) and the worker's own controls
  (\<^verbatim>\<open>skipWaiting\<close>, \<^verbatim>\<open>clients.claim\<close>, \<^verbatim>\<open>console\<close>). The listeners and the
  three helper functions are translated from sw.js line by line. The host is not part of
  the repository: it is modelled as an explicit state, the \<open>world\<close>, that every operation
  takes and returns, together with a chronological trace of the host calls made so far.
  A promise is modelled by its outcome, \<open>Inl\<close> for a rejection and \<open>Inr\<close> for a value;
  \<^verbatim>\<open>await\<close> and \<^verbatim>\<open>then\<close> are sequencing, \<^verbatim>\<open>try/catch\<close> and \<^verbatim>\<open>.catch\<close> are a case
  distinction on the outcome.
\<close>

subsection \<open>Requests, responses and the host state\<close>

datatype error = TypeError | FetchError string

text \<open>
  \<^verbatim>\<open>new URL(request.url)\<close>: the parsed address. \<open>protocol\<close> ends with the colon, as in the
  browser (\<^verbatim>\<open>"https:"\<close>); \<open>pathname\<close> stands for everything after the host.
\<close>

record URL =
  protocol :: string
  hostname :: string
  pathname :: string

text \<open>
  A request; \<open>req_method\<close> is \<^verbatim>\<open>request.method\<close>. \<open>headers\<close> maps a lower-case header
  name to its value, so that \<^verbatim>\<open>request.headers.get('accept')\<close> is \<open>headers r ''accept''\<close>
  (\<open>None\<close> for \<^verbatim>\<open>null\<close>).
\<close>

record request =
  req_method :: string
  url :: URL
  destination :: string
  headers :: "string \<rightharpoonup> string"

record response =
  status :: nat
  statusText :: string
  resp_headers :: "(string \<times> string) list"
  body :: string

text \<open>
  A \<^verbatim>\<open>Response\<close> object: its contents and whether its body stream has been read. Objects
  live in the world under an identity, so that a response and its clone are two objects.
\<close>

record response_object =
  content :: response
  bodyUsed :: bool

text \<open>The key of a store entry: the method and the address of the request.\<close>

type_synonym key = "string \<times> URL"

type_synonym cache = "key \<rightharpoonup> response"

datatype effect =
    NetFetch request
  | CacheMatch key
  | CacheOpen string
  | CachePut string key
  | CacheKeys
  | CacheDelete string
  | SkipWaiting
  | ClientsClaim
  | ConsoleLog string
  | ConsoleLogName string string
  | ConsoleWarn string error

text \<open>
  The world: the cache storage as the list of its named caches in creation order, the
  response objects with the next free identity, the writes in flight (calls of
  \<^verbatim>\<open>cache.put\<close> whose promise nobody awaits: the cache name, the request and the response
  object of each, in the order of the calls), and the trace of host calls.
\<close>

record world =
  caches :: "(string \<times> cache) list"
  objects :: "nat \<rightharpoonup> response_object"
  next_id :: nat
  pending :: "(string \<times> request \<times> nat) list"
  trace :: "effect list"

text \<open>The network: what \<^verbatim>\<open>fetch\<close> answers for a request, a response or a rejection.\<close>

type_synonym network = "request \<Rightarrow> error + response"

definition request_key :: "request \<Rightarrow> key" where
  "request_key r = (req_method r, url r)"

definition emit :: "effect \<Rightarrow> world \<Rightarrow> world" where
  "emit e w = w\<lparr>trace := trace w @ [e]\<rparr>"

definition new_object :: "response \<Rightarrow> world \<Rightarrow> nat \<times> world" where
  "new_object c w =
     (next_id w,
      w\<lparr>objects := (objects w)(next_id w \<mapsto> \<lparr>content = c, bodyUsed = False\<rparr>),
        next_id := Suc (next_id w)\<rparr>)"

text \<open>\<^verbatim>\<open>fetch(request)\<close>: resolves to a fresh response object, or rejects.\<close>

definition fetch :: "network \<Rightarrow> request \<Rightarrow> world \<Rightarrow> (error + nat) \<times> world" where
  "fetch net r w =
     (let w1 = emit (NetFetch r) w in
      case net r of
        Inl e \<Rightarrow> (Inl e, w1)
      | Inr c \<Rightarrow> (case new_object c w1 of (i, w2) \<Rightarrow> (Inr i, w2)))"

text \<open>
  \<^verbatim>\<open>caches.match(request)\<close>: the entry of the first cache, in creation order, that has
  one for the request's key, as a fresh response object; \<open>None\<close> for \<^verbatim>\<open>undefined\<close>.
\<close>

fun match_all :: "(string \<times> cache) list \<Rightarrow> key \<Rightarrow> response option" where
  "match_all [] k = None"
| "match_all ((n, c) # cs) k = (case c k of Some v \<Rightarrow> Some v | None \<Rightarrow> match_all cs k)"

definition caches_match :: "request \<Rightarrow> world \<Rightarrow> nat option \<times> world" where
  "caches_match r w =
     (let w1 = emit (CacheMatch (request_key r)) w in
      case match_all (caches w1) (request_key r) of
        None \<Rightarrow> (None, w1)
      | Some c \<Rightarrow> (case new_object c w1 of (i, w2) \<Rightarrow> (Some i, w2)))"

text \<open>\<^verbatim>\<open>caches.open(name)\<close>: creates the cache when there is none of that name.\<close>

definition caches_open :: "string \<Rightarrow> world \<Rightarrow> string \<times> world" where
  "caches_open name w =
     (let w1 = emit (CacheOpen name) w in
      if name \<in> set (map fst (caches w1)) then (name, w1)
      else (name, w1\<lparr>caches := caches w1 @ [(name, Map.empty)]\<rparr>))"

text \<open>
  \<^verbatim>\<open>response.clone()\<close>: a second object with the same contents; a \<^verbatim>\<open>TypeError\<close> when
  the body has been read already.
\<close>

definition clone :: "nat \<Rightarrow> world \<Rightarrow> (error + nat) \<times> world" where
  "clone i w =
     (case objects w i of
        None \<Rightarrow> (Inl TypeError, w)
      | Some ob \<Rightarrow>
          if bodyUsed ob then (Inl TypeError, w)
          else (case new_object (content ob) w of (j, w1) \<Rightarrow> (Inr j, w1)))"

definition put_entry :: "string \<Rightarrow> key \<Rightarrow> response \<Rightarrow> (string \<times> cache) list \<Rightarrow> (string \<times> cache) list" where
  "put_entry name k v cs = map (\<lambda>(n, c). if n = name then (n, c(k \<mapsto> v)) else (n, c)) cs"

text \<open>
  What the host's cache accepts. A request is stored only when its method is
  \<^verbatim>\<open>GET\<close> and its protocol is \<^verbatim>\<open>http:\<close> or \<^verbatim>\<open>https:\<close>. A response is stored only
  when it is not partial (status 206) and its \<^verbatim>\<open>Vary\<close> header does not list \<^verbatim>\<open>*\<close>.
  The header names of a response are in lower case, as the host lists them; the value of
  a header is a list of fields separated by commas, each with blanks around it.
\<close>

definition is_blank :: "char \<Rightarrow> bool" where
  "is_blank c = (c = CHR '' '' \<or> c = CHR 0x09)"

definition trim :: "string \<Rightarrow> string" where
  "trim s = rev (dropWhile is_blank (rev (dropWhile is_blank s)))"

fun split_commas :: "string \<Rightarrow> string list" where
  "split_commas [] = [[]]"
| "split_commas (c # cs) =
     (if c = CHR '','' then [] # split_commas cs
      else (case split_commas cs of [] \<Rightarrow> [[c]] | x # xs \<Rightarrow> (c # x) # xs))"

definition vary_star :: "response \<Rightarrow> bool" where
  "vary_star c =
     list_ex (\<lambda>(n, v). n = ''vary'' \<and> ''*'' \<in> set (map trim (split_commas v))) (resp_headers c)"

definition storable_request :: "request \<Rightarrow> bool" where
  "storable_request r =
     (req_method r = ''GET'' \<and> (protocol (url r) = ''http:'' \<or> protocol (url r) = ''https:''))"

definition storable_response :: "response \<Rightarrow> bool" where
  "storable_response c = (status c \<noteq> 206 \<and> \<not> vary_star c)"

text \<open>
  The write of \<^verbatim>\<open>cache.put(request, response)\<close> on the cache \<open>name\<close>. The host refuses
  with a \<^verbatim>\<open>TypeError\<close>, and stores nothing, a request or a response it does not accept
  and a response whose body has been read. Otherwise it reads the body of the object it is
  given (which is used up from then on) and stores its contents under the request's key,
  replacing an earlier entry.
\<close>

definition cache_put :: "string \<Rightarrow> request \<Rightarrow> nat \<Rightarrow> world \<Rightarrow> (error + unit) \<times> world" where
  "cache_put name r i w =
     (case objects w i of
        None \<Rightarrow> (Inl TypeError, w)
      | Some ob \<Rightarrow>
          if \<not> storable_request r \<or> \<not> storable_response (content ob) \<or> bodyUsed ob
          then (Inl TypeError, w)
          else (Inr (),
                w\<lparr>objects := (objects w)(i \<mapsto> ob\<lparr>bodyUsed := True\<rparr>),
                  caches := put_entry name (request_key r) (content ob) (caches w)\<rparr>))"

text \<open>
  \<^verbatim>\<open>cache.put(request, response)\<close> as a statement of its own, with no \<^verbatim>\<open>await\<close>: the
  call is made and its promise dropped. The caller goes on at once; the write is in flight
  and the store does not hold the entry yet.
\<close>

definition put_call :: "string \<Rightarrow> request \<Rightarrow> nat \<Rightarrow> world \<Rightarrow> world" where
  "put_call name r i w =
     emit (CachePut name (request_key r)) (w\<lparr>pending := pending w @ [(name, r, i)]\<rparr>)"

text \<open>
  The world once the writes in flight have completed, in the order of their calls. A
  refused write is a rejection nobody handles: it changes nothing.
\<close>

fun run_puts :: "(string \<times> request \<times> nat) list \<Rightarrow> world \<Rightarrow> world" where
  "run_puts [] w = w"
| "run_puts ((name, r, i) # ps) w = run_puts ps (snd (cache_put name r i w))"

definition settle :: "world \<Rightarrow> world" where
  "settle w = run_puts (pending w) (w\<lparr>pending := []\<rparr>)"

definition caches_keys :: "world \<Rightarrow> string list \<times> world" where
  "caches_keys w = (map fst (caches w), emit CacheKeys w)"

definition caches_delete :: "string \<Rightarrow> world \<Rightarrow> bool \<times> world" where
  "caches_delete name w =
     (name \<in> set (map fst (caches w)),
      emit (CacheDelete name) (w\<lparr>caches := filter (\<lambda>(n, c). n \<noteq> name) (caches w)\<rparr>))"

definition skipWaiting :: "world \<Rightarrow> world" where
  "skipWaiting w = emit SkipWaiting w"

definition clients_claim :: "world \<Rightarrow> world" where
  "clients_claim w = emit ClientsClaim w"

text \<open>The response status of an object; \<open>None\<close> where there is no object.\<close>

definition status_of :: "world \<Rightarrow> nat \<Rightarrow> nat option" where
  "status_of w i = map_option (\<lambda>ob. status (content ob)) (objects w i)"

subsection \<open>Cache configuration\<close>

definition CACHE_NAME :: string where
  "CACHE_NAME = ''space-observation-journal-v1''"

definition PRECACHE_ASSETS :: "string list" where
  "PRECACHE_ASSETS = [''/'', ''/index.html'', ''/manifest.json'', ''/icon-192.png'', ''/icon-512.png'']"

subsection \<open>The offline fallback\<close>

definition em_dash :: string where
  "em_dash = [CHR 0xE2, CHR 0x80, CHR 0x94]"

definition ellipsis :: string where
  "ellipsis = [CHR 0xE2, CHR 0x80, CHR 0xA6]"

fun join_lines :: "string list \<Rightarrow> string" where
  "join_lines [] = []"
| "join_lines [l] = l"
| "join_lines (l # ls) = l @ [CHR 0x0A] @ join_lines ls"

text \<open>The template literal of \<^verbatim>\<open>offlineFallback\<close>, in UTF-8.\<close>

definition OFFLINE_PAGE :: string where
  "OFFLINE_PAGE = join_lines
    [''<!DOCTYPE html>'',
     ''<html lang=\"en\">'',
     ''<head>'',
     ''  <meta charset=\"UTF-8\">'',
     ''  <meta name=\"viewport\" content=\"width=device-width, initial-scale=1.0\">'',
     ''  <title>Space Journal '' @ em_dash @ '' Offline</title>'',
     ''  <style>'',
     ''    body { background: #03040a; color: #e2e8f0; font-family: sans-serif;'',
     ''           display: flex; align-items: center; justify-content: center;'',
     ''           min-height: 100vh; margin: 0; text-align: center; padding: 20px; }'',
     ''    h1 { background: linear-gradient(135deg,#a855f7,#3b82f6);'',
     ''         -webkit-background-clip: text; -webkit-text-fill-color: transparent;'',
     ''         font-size: 2rem; margin-bottom: 12px; }'',
     ''    p { color: #94a3b8; margin-bottom: 24px; }'',
     ''    button { background: linear-gradient(135deg,#7c3aed,#3b82f6);'',
     ''             color: white; border: none; padding: 12px 28px;'',
     ''             border-radius: 50px; cursor: pointer; font-size: 1rem; }'',
     ''  </style>'',
     ''</head>'',
     ''<body>'',
     ''  <div>'',
     ''    <div style=\"font-size:4rem;margin-bottom:16px\">'' @ [CHR 0xF0, CHR 0x9F, CHR 0x8C, CHR 0x8C] @ ''</div>'',
     ''    <h1>You're Offline</h1>'',
     ''    <p>The Space Observation Journal requires an internet connection for the first load.<br>'',
     ''       Once loaded, it works completely offline.</p>'',
     ''    <button onclick=\"window.location.reload()\">Try Again</button>'',
     ''  </div>'',
     ''</body>'',
     ''</html>'']"

text \<open>\<^verbatim>\<open>s.includes(t)\<close>: \<open>t\<close> occurs in \<open>s\<close> as a contiguous run.\<close>

fun str_includes :: "string \<Rightarrow> string \<Rightarrow> bool" where
  "str_includes [] t = (t = [])"
| "str_includes (c # cs) t = (prefix t (c # cs) \<or> str_includes cs t)"

text \<open>
  \<^verbatim>\<open>request.headers.get('accept')?.includes('text/html')\<close>: \<^verbatim>\<open>undefined\<close>, which is
  falsy, when the request has no accept header.
\<close>

definition accepts_html :: "request \<Rightarrow> bool" where
  "accepts_html r = (case headers r ''accept'' of None \<Rightarrow> False | Some a \<Rightarrow> str_includes a ''text/html'')"

text \<open>
  \<^verbatim>\<open>offlineFallback(request)\<close>: the contents of the response it constructs. A response
  built from a string with no content type of its own gets the host's default one.
\<close>

definition offlineFallback :: "request \<Rightarrow> response" where
  "offlineFallback r =
     (if destination r = ''document'' \<or> accepts_html r then
        \<lparr>status = 200, statusText = '''',
         resp_headers = [(''content-type'', ''text/html; charset=utf-8'')],
         body = OFFLINE_PAGE\<rparr>
      else
        \<lparr>status = 503, statusText = ''Service Unavailable'',
         resp_headers = [(''content-type'', ''text/plain;charset=UTF-8'')],
         body = ''Offline''\<rparr>)"

subsection \<open>The two strategies\<close>

text \<open>
  The body of the \<^verbatim>\<open>try\<close> block of \<^verbatim>\<open>cacheFirstStrategy\<close>. The guard
  \<^verbatim>\<open>networkResponse && networkResponse.status === 200\<close> is \<open>status_of w nr = Some 200\<close>.
  The source does not await \<^verbatim>\<open>cache.put\<close>: the strategy returns with the write in
  flight (\<open>put_call\<close>), and the entry is in the store only once the write has completed
  (\<open>settle\<close>) and the host has accepted it.
\<close>

definition cacheFirst_try :: "network \<Rightarrow> request \<Rightarrow> world \<Rightarrow> (error + nat) \<times> world" where
  "cacheFirst_try net r w =
     (case caches_match r w of
        (Some cachedResponse, w1) \<Rightarrow> (Inr cachedResponse, w1)
      | (None, w1) \<Rightarrow>
          (case fetch net r w1 of
             (Inl e, w2) \<Rightarrow> (Inl e, w2)
           | (Inr networkResponse, w2) \<Rightarrow>
               if status_of w2 networkResponse = Some 200 then
                 (case caches_open CACHE_NAME w2 of
                    (cache, w3) \<Rightarrow>
                      (case clone networkResponse w3 of
                         (Inl e, w4) \<Rightarrow> (Inl e, w4)
                       | (Inr copy, w4) \<Rightarrow>
                           (Inr networkResponse, put_call cache r copy w4)))
               else (Inr networkResponse, w2)))"

definition cacheFirstStrategy :: "network \<Rightarrow> request \<Rightarrow> world \<Rightarrow> (error + nat) \<times> world" where
  "cacheFirstStrategy net r w =
     (case cacheFirst_try net r w of
        (Inr resp, w1) \<Rightarrow> (Inr resp, w1)
      | (Inl e, w1) \<Rightarrow>
          (case new_object (offlineFallback r)
                  (emit (ConsoleWarn ''[SW] Cache-first fetch failed:'' e) w1) of
             (i, w2) \<Rightarrow> (Inr i, w2)))"

definition networkFirst_try :: "network \<Rightarrow> request \<Rightarrow> world \<Rightarrow> (error + nat) \<times> world" where
  "networkFirst_try net r w =
     (case fetch net r w of
        (Inl e, w1) \<Rightarrow> (Inl e, w1)
      | (Inr networkResponse, w1) \<Rightarrow>
          if status_of w1 networkResponse = Some 200 then
            (case caches_open CACHE_NAME w1 of
               (cache, w2) \<Rightarrow>
                 (case clone networkResponse w2 of
                    (Inl e, w3) \<Rightarrow> (Inl e, w3)
                  | (Inr copy, w3) \<Rightarrow>
                      (Inr networkResponse, put_call cache r copy w3)))
          else (Inr networkResponse, w1))"

definition networkFirstStrategy :: "network \<Rightarrow> request \<Rightarrow> world \<Rightarrow> (error + nat) \<times> world" where
  "networkFirstStrategy net r w =
     (case networkFirst_try net r w of
        (Inr resp, w1) \<Rightarrow> (Inr resp, w1)
      | (Inl e, w1) \<Rightarrow>
          (case caches_match r w1 of
             (Some cachedResponse, w2) \<Rightarrow> (Inr cachedResponse, w2)
           | (None, w2) \<Rightarrow>
               (case new_object (offlineFallback r) w2 of (i, w3) \<Rightarrow> (Inr i, w3))))"

subsection \<open>The fetch listener\<close>

text \<open>
  \<open>None\<close>: the listener returns without \<^verbatim>\<open>event.respondWith\<close>, and the request goes to
  the network as if there were no worker. \<open>Some p\<close>: the listener responds with the
  promise \<open>p\<close> of a strategy.
\<close>

definition onFetch :: "network \<Rightarrow> request \<Rightarrow> world \<Rightarrow> (error + nat) option \<times> world" where
  "onFetch net r w =
     (if req_method r \<noteq> ''GET'' then (None, w)
      else if \<not> prefix ''http'' (protocol (url r)) then (None, w)
      else if hostname (url r) = ''fonts.googleapis.com'' \<or> hostname (url r) = ''fonts.gstatic.com'' then
        (case networkFirstStrategy net r w of (p, w1) \<Rightarrow> (Some p, w1))
      else
        (case cacheFirstStrategy net r w of (p, w1) \<Rightarrow> (Some p, w1)))"

subsection \<open>The install listener\<close>

text \<open>
  A manifest entry is an address relative to the worker's own location \<open>loc\<close>; the host
  fetches it with a plain \<^verbatim>\<open>GET\<close> request.
\<close>

definition asset_request :: "URL \<Rightarrow> string \<Rightarrow> request" where
  "asset_request loc p =
     \<lparr>req_method = ''GET'', url = loc\<lparr>pathname := p\<rparr>, destination = [], headers = Map.empty\<rparr>"

text \<open>
  \<^verbatim>\<open>cache.addAll(urls)\<close> of the host: every address is fetched; when a request is one
  the cache does not accept, a fetch rejects, or an answer has a status outside 200..299
  or is a response the cache does not accept, the call rejects with a \<^verbatim>\<open>TypeError\<close> and
  nothing is stored; otherwise every response is stored under its request.
\<close>

fun addAll_fetch :: "network \<Rightarrow> request list \<Rightarrow> error + (request \<times> response) list" where
  "addAll_fetch net [] = Inr []"
| "addAll_fetch net (r # rs) =
     (if \<not> storable_request r then Inl TypeError
      else (case net r of
        Inl e \<Rightarrow> Inl TypeError
      | Inr c \<Rightarrow>
          if \<not> (200 \<le> status c \<and> status c \<le> 299) \<or> \<not> storable_response c then Inl TypeError
          else (case addAll_fetch net rs of
                  Inl e \<Rightarrow> Inl e
                | Inr ps \<Rightarrow> Inr ((r, c) # ps))))"

fun put_entries :: "string \<Rightarrow> (request \<times> response) list \<Rightarrow> (string \<times> cache) list \<Rightarrow> (string \<times> cache) list" where
  "put_entries name [] cs = cs"
| "put_entries name ((r, c) # ps) cs = put_entries name ps (put_entry name (request_key r) c cs)"

fun emit_all :: "effect list \<Rightarrow> world \<Rightarrow> world" where
  "emit_all [] w = w"
| "emit_all (e # es) w = emit_all es (emit e w)"

definition cache_addAll :: "network \<Rightarrow> URL \<Rightarrow> string \<Rightarrow> string list \<Rightarrow> world \<Rightarrow> (error + unit) \<times> world" where
  "cache_addAll net loc name urls w =
     (let rs = map (asset_request loc) urls;
          w1 = emit_all (map NetFetch rs) w in
      case addAll_fetch net rs of
        Inl e \<Rightarrow> (Inl e, w1)
      | Inr ps \<Rightarrow> (Inr (), w1\<lparr>caches := put_entries name ps (caches w1)\<rparr>))"

text \<open>
  The chain \<^verbatim>\<open>caches.open(CACHE_NAME).then(...).then(...)\<close> of the install listener,
  before its \<^verbatim>\<open>.catch\<close>: a rejection of \<^verbatim>\<open>addAll\<close> skips the second \<^verbatim>\<open>then\<close>.
\<close>

definition install_chain :: "network \<Rightarrow> URL \<Rightarrow> world \<Rightarrow> (error + unit) \<times> world" where
  "install_chain net loc w =
     (case caches_open CACHE_NAME w of
        (cache, w1) \<Rightarrow>
          (case cache_addAll net loc cache PRECACHE_ASSETS
                  (emit (ConsoleLog ''[SW] Pre-caching app shell assets'') w1) of
             (Inl e, w2) \<Rightarrow> (Inl e, w2)
           | (Inr u, w2) \<Rightarrow>
               (Inr (),
                skipWaiting
                  (emit (ConsoleLog (''[SW] Pre-cache complete '' @ em_dash @ '' skipping waiting'')) w2))))"

text \<open>
  The install listener. Its result is the outcome of the promise it hands to
  \<^verbatim>\<open>event.waitUntil\<close>: the host lets the installation fail exactly when that promise
  rejects (\<open>Inl\<close>), and goes on to activate the worker when it is fulfilled (\<open>Inr\<close>).
  The handler of \<^verbatim>\<open>.catch\<close> logs the error and returns nothing.
\<close>

definition onInstall :: "network \<Rightarrow> URL \<Rightarrow> world \<Rightarrow> (error + unit) \<times> world" where
  "onInstall net loc w =
     (case install_chain net loc
             (emit (ConsoleLog (''[SW] Installing Space Observation Journal SW'' @ ellipsis)) w) of
        (Inr u, w1) \<Rightarrow> (Inr u, w1)
      | (Inl err, w1) \<Rightarrow> (Inr (), emit (ConsoleWarn ''[SW] Pre-cache failed:'' err) w1))"

subsection \<open>The activate listener\<close>

text \<open>
  The \<^verbatim>\<open>map\<close> over the stale names: each is logged and deleted; \<^verbatim>\<open>Promise.all\<close> waits
  for every deletion.
\<close>

fun delete_all :: "string list \<Rightarrow> world \<Rightarrow> world" where
  "delete_all [] w = w"
| "delete_all (name # names) w =
     delete_all names
       (snd (caches_delete name (emit (ConsoleLogName ''[SW] Deleting old cache:'' name) w)))"

definition onActivate :: "world \<Rightarrow> (error + unit) \<times> world" where
  "onActivate w =
     (case caches_keys (emit (ConsoleLog (''[SW] Activating new Service Worker'' @ ellipsis)) w) of
        (cacheNames, w1) \<Rightarrow>
          (Inr (),
           clients_claim
             (emit (ConsoleLog (''[SW] Activation complete '' @ em_dash @ '' claiming all clients''))
                (delete_all (filter (\<lambda>name. name \<noteq> CACHE_NAME) cacheNames) w1))))"

subsection \<open>The message listener\<close>

text \<open>The value of \<^verbatim>\<open>event.data\<close>: any structured value a page can post.\<close>

datatype js_value =
    JUndefined
  | JNull
  | JBool bool
  | JNumber int
  | JString string
  | JObject "(string \<times> js_value) list"

fun truthy :: "js_value \<Rightarrow> bool" where
  "truthy JUndefined = False"
| "truthy JNull = False"
| "truthy (JBool b) = b"
| "truthy (JNumber n) = (n \<noteq> 0)"
| "truthy (JString s) = (s \<noteq> [])"
| "truthy (JObject ps) = True"

text \<open>
  \<^verbatim>\<open>v.type\<close>: a \<^verbatim>\<open>TypeError\<close> on \<^verbatim>\<open>undefined\<close> and \<^verbatim>\<open>null\<close>, \<^verbatim>\<open>undefined\<close> on a
  boolean, a number or a string, and the property (or \<^verbatim>\<open>undefined\<close>) on an object.
\<close>

fun get_type :: "js_value \<Rightarrow> error + js_value" where
  "get_type JUndefined = Inl TypeError"
| "get_type JNull = Inl TypeError"
| "get_type (JObject ps) = Inr (case map_of ps ''type'' of Some v \<Rightarrow> v | None \<Rightarrow> JUndefined)"
| "get_type v = Inr JUndefined"

definition onMessage :: "js_value \<Rightarrow> world \<Rightarrow> (error + unit) \<times> world" where
  "onMessage d w =
     (if truthy d then
        (case get_type d of
           Inl e \<Rightarrow> (Inl e, w)
         | Inr t \<Rightarrow> if t = JString ''SKIP_WAITING'' then (Inr (), skipWaiting w) else (Inr (), w))
      else (Inr (), w))"

subsection \<open>Notions used in the statements\<close>

text \<open>
  The cache storage after \<^verbatim>\<open>caches.open(CACHE_NAME)\<close>, the entry of a named cache, the
  caches of the current generation and of the other (stale) generations, and the trace of
  the deletions made for a list of names.
\<close>

definition opened :: "(string \<times> cache) list \<Rightarrow> (string \<times> cache) list" where
  "opened cs = (if CACHE_NAME \<in> set (map fst cs) then cs else cs @ [(CACHE_NAME, Map.empty)])"

definition lookup_entry :: "(string \<times> cache) list \<Rightarrow> string \<Rightarrow> key \<Rightarrow> response option" where
  "lookup_entry cs name k = (case map_of cs name of None \<Rightarrow> None | Some c \<Rightarrow> c k)"

definition current :: "(string \<times> cache) list \<Rightarrow> (string \<times> cache) list" where
  "current cs = filter (\<lambda>(n, c). n = CACHE_NAME) cs"

definition stale :: "(string \<times> cache) list \<Rightarrow> (string \<times> cache) list" where
  "stale cs = filter (\<lambda>(n, c). n \<noteq> CACHE_NAME) cs"

text \<open>
  The protocols of the requests a host dispatches a fetch event for: \<^verbatim>\<open>http:\<close> and
  \<^verbatim>\<open>https:\<close>, and in some browsers a scheme of the browser's own such as
  \<^verbatim>\<open>chrome-extension:\<close>, none of which begins with \<^verbatim>\<open>http\<close>.
\<close>

definition fetch_event_protocol :: "string \<Rightarrow> bool" where
  "fetch_event_protocol p = (p = ''http:'' \<or> p = ''https:'' \<or> \<not> prefix ''http'' p)"

definition deletions :: "string list \<Rightarrow> effect list" where
  "deletions names =
     concat (map (\<lambda>name. [ConsoleLogName ''[SW] Deleting old cache:'' name, CacheDelete name]) names)"

subsection \<open>Concrete requests, responses, networks and worlds\<close>

definition journal :: URL where
  "journal = \<lparr>protocol = ''https:'', hostname = ''journal.example'', pathname = ''/''\<rparr>"

definition req_image :: request where
  "req_image = \<lparr>req_method = ''GET'', url = journal\<lparr>pathname := ''/a.png''\<rparr>,
                 destination = ''image'', headers = Map.empty\<rparr>"

definition req_page :: request where
  "req_page = \<lparr>req_method = ''GET'', url = journal\<lparr>pathname := ''/index.html''\<rparr>,
                destination = ''document'',
                headers = [''accept'' \<mapsto> ''text/html,application/xhtml+xml'']\<rparr>"

definition req_font :: request where
  "req_font = \<lparr>req_method = ''GET'',
                url = \<lparr>protocol = ''https:'', hostname = ''fonts.gstatic.com'',
                       pathname = ''/s/sans.woff2''\<rparr>,
                destination = ''font'', headers = Map.empty\<rparr>"

definition req_post :: request where
  "req_post = req_image\<lparr>req_method := ''POST''\<rparr>"

definition req_extension :: request where
  "req_extension =
     req_image\<lparr>url := \<lparr>protocol = ''chrome-extension:'', hostname = ''abcdef'',
                        pathname = ''/icon.png''\<rparr>\<rparr>"

definition resp_ok :: response where
  "resp_ok = \<lparr>status = 200, statusText = ''OK'',
              resp_headers = [(''content-type'', ''image/png'')], body = ''PNG''\<rparr>"

definition resp_old :: response where
  "resp_old = \<lparr>status = 200, statusText = ''OK'',
               resp_headers = [(''content-type'', ''image/png'')], body = ''OLD''\<rparr>"

definition resp_created :: response where
  "resp_created = \<lparr>status = 201, statusText = ''Created'', resp_headers = [], body = ''new''\<rparr>"

definition resp_vary :: response where
  "resp_vary = \<lparr>status = 200, statusText = ''OK'',
                resp_headers = [(''content-type'', ''image/png''), (''vary'', ''*'')],
                body = ''PNG''\<rparr>"

definition net_ok :: network where
  "net_ok = (\<lambda>r. Inr resp_ok)"

definition net_created :: network where
  "net_created = (\<lambda>r. Inr resp_created)"

definition net_vary :: network where
  "net_vary = (\<lambda>r. Inr resp_vary)"

definition net_down :: network where
  "net_down = (\<lambda>r. Inl (FetchError ''Failed to fetch''))"

definition net_icon_missing :: network where
  "net_icon_missing =
     (\<lambda>r. if pathname (url r) = ''/icon-512.png'' then Inl (FetchError ''Failed to fetch'')
          else Inr resp_ok)"

definition world0 :: world where
  "world0 = \<lparr>caches = [], objects = Map.empty, next_id = 0, pending = [], trace = []\<rparr>"

definition world_hit :: world where
  "world_hit = world0\<lparr>caches := [(CACHE_NAME, [request_key req_image \<mapsto> resp_ok])]\<rparr>"

definition world_stale :: world where
  "world_stale =
     world0\<lparr>caches := [(''space-observation-journal-v0'', [request_key req_image \<mapsto> resp_old])]\<rparr>"

definition world_two :: world where
  "world_two =
     world0\<lparr>caches := [(''space-observation-journal-v0'', [request_key req_image \<mapsto> resp_old]),
                        (CACHE_NAME, Map.empty)]\<rparr>"

section \<open>Properties\<close>

subsection \<open>The cache storage\<close>

lemma match_all_put_entry:
  "match_all cs k = None \<Longrightarrow> name \<in> fst ` set cs \<Longrightarrow> match_all (put_entry name k v cs) k = Some v"
proof (induction cs)
  case Nil
  then show ?case by simp
next
  case (Cons p cs)
  obtain n c where p: "p = (n, c)" by (cases p)
  from Cons.prems(1) p have ck: "c k = None" and rest: "match_all cs k = None"
    by (auto split: option.splits)
  show ?case
  proof (cases "n = name")
    case True
    then show ?thesis by (simp add: p put_entry_def)
  next
    case False
    with Cons.prems(2) p have "name \<in> fst ` set cs" by auto
    from Cons.IH [OF rest this] False ck show ?thesis
      by (simp add: p put_entry_def)
  qed
qed

lemma match_all_append_empty: "match_all (cs @ [(n, Map.empty)]) k = match_all cs k"
  by (induction cs) (auto split: option.splits)

lemma map_of_put_entry:
  "map_of (put_entry name k v cs) name = map_option (\<lambda>c. c(k \<mapsto> v)) (map_of cs name)"
  by (induction cs) (auto simp: put_entry_def)

lemma lookup_put_entry:
  "name \<in> fst ` set cs \<Longrightarrow> lookup_entry (put_entry name k v cs) name k = Some v"
  by (cases "map_of cs name") (auto simp: lookup_entry_def map_of_put_entry map_of_eq_None_iff)

lemma opened_has_current: "CACHE_NAME \<in> fst ` set (opened cs)"
  by (simp add: opened_def)

lemma match_all_opened: "match_all (opened cs) k = match_all cs k"
  by (simp add: opened_def match_all_append_empty)

lemma stale_put_entry: "stale (put_entry CACHE_NAME k v cs) = stale cs"
  by (induction cs) (auto simp: stale_def put_entry_def)

lemma stale_opened: "stale (opened cs) = stale cs"
  by (simp add: stale_def opened_def)

lemma match_all_stale:
  "match_all (current cs) k = None \<Longrightarrow> match_all cs k = match_all (stale cs) k"
  by (induction cs) (auto simp: stale_def current_def split: option.splits)

lemma map_fst_current: "map fst (current cs) = filter (\<lambda>n. n = CACHE_NAME) (map fst cs)"
  by (induction cs) (auto simp: current_def)

lemma str_includes_sublist: "str_includes s t \<longleftrightarrow> sublist t s"
  by (induction s) (auto simp: sublist_Cons_right)

subsection \<open>The world after activation\<close>

lemma delete_all_world:
  "delete_all names w =
     w\<lparr>caches := filter (\<lambda>(n, c). n \<notin> set names) (caches w),
       trace := trace w @ deletions names\<rparr>"
proof (induction names arbitrary: w)
  case Nil
  then show ?case by (simp add: deletions_def)
next
  case (Cons name names)
  have "filter (\<lambda>(n, c). n \<notin> set names) (filter (\<lambda>(n, c). n \<noteq> name) (caches w))
      = filter (\<lambda>(n, c). n \<notin> set (name # names)) (caches w)"
    by (induction "caches w") (auto simp: case_prod_beta)
  then show ?case
    by (simp add: Cons.IH caches_delete_def emit_def deletions_def case_prod_beta)
qed

lemma filter_current:
  "filter (\<lambda>(n, c). n \<notin> set (filter (\<lambda>name. name \<noteq> CACHE_NAME) (map fst cs))) cs
     = filter (\<lambda>(n, c). n = CACHE_NAME) cs"
  by (rule filter_cong) (auto simp: rev_image_eqI)

lemma delete_stale_world:
  assumes "caches w1 = cs"
  shows "delete_all (filter (\<lambda>name. name \<noteq> CACHE_NAME) (map fst cs)) w1 =
     w1\<lparr>caches := current cs,
        trace := trace w1 @ deletions (filter (\<lambda>name. name \<noteq> CACHE_NAME) (map fst cs))\<rparr>"
  unfolding delete_all_world assms filter_current current_def ..

text \<open>The steps of the activate listener, for any two log messages.\<close>

lemma activate_steps:
  "(case caches_keys (emit (ConsoleLog m1) w) of
      (cacheNames, w1) \<Rightarrow>
        (Inr (),
         clients_claim
           (emit (ConsoleLog m2)
              (delete_all (filter (\<lambda>name. name \<noteq> CACHE_NAME) cacheNames) w1))))
   = (Inr (),
      w\<lparr>caches := current (caches w),
        trace := trace w @ [ConsoleLog m1, CacheKeys]
          @ deletions (filter (\<lambda>name. name \<noteq> CACHE_NAME) (map fst (caches w)))
          @ [ConsoleLog m2, ClientsClaim]\<rparr>)"
  by (simp add: caches_keys_def delete_stale_world clients_claim_def emit_def)

lemma onActivate_world:
  "onActivate w =
     (Inr (),
      w\<lparr>caches := current (caches w),
        trace := trace w
          @ [ConsoleLog (''[SW] Activating new Service Worker'' @ ellipsis), CacheKeys]
          @ deletions (filter (\<lambda>name. name \<noteq> CACHE_NAME) (map fst (caches w)))
          @ [ConsoleLog (''[SW] Activation complete '' @ em_dash @ '' claiming all clients''),
             ClientsClaim]\<rparr>)"
  unfolding onActivate_def by (rule activate_steps)

subsection \<open>The strategies, path by path\<close>

text \<open>
  Each lemma gives the outcome and the whole world after one path through a strategy. The
  response handed to the caller is the object \<open>next_id w\<close>; where a copy is to be stored,
  the object handed to \<^verbatim>\<open>cache.put\<close> is the clone \<open>Suc (next_id w)\<close>, and the write is
  in flight when the strategy returns.
\<close>

lemma cacheFirst_on_hit:
  assumes "match_all (caches w) (request_key r) = Some R"
  shows "cacheFirstStrategy net r w =
    (Inr (next_id w),
     w\<lparr>objects := (objects w)(next_id w \<mapsto> \<lparr>content = R, bodyUsed = False\<rparr>),
       next_id := Suc (next_id w),
       trace := trace w @ [CacheMatch (request_key r)]\<rparr>)"
  using assms
  by (simp add: cacheFirstStrategy_def cacheFirst_try_def caches_match_def emit_def new_object_def)

lemma cacheFirst_on_miss:
  assumes "match_all (caches w) (request_key r) = None" and "net r = Inr nr"
  shows "cacheFirstStrategy net r w =
    (Inr (next_id w),
     if status nr = 200 then
       w\<lparr>objects := (objects w)(next_id w \<mapsto> \<lparr>content = nr, bodyUsed = False\<rparr>,
                               Suc (next_id w) \<mapsto> \<lparr>content = nr, bodyUsed = False\<rparr>),
         next_id := Suc (Suc (next_id w)),
         pending := pending w @ [(CACHE_NAME, r, Suc (next_id w))],
         trace := trace w @ [CacheMatch (request_key r), NetFetch r, CacheOpen CACHE_NAME,
                             CachePut CACHE_NAME (request_key r)],
         caches := opened (caches w)\<rparr>
     else
       w\<lparr>objects := (objects w)(next_id w \<mapsto> \<lparr>content = nr, bodyUsed = False\<rparr>),
         next_id := Suc (next_id w),
         trace := trace w @ [CacheMatch (request_key r), NetFetch r]\<rparr>)"
  using assms
  by (simp add: cacheFirstStrategy_def cacheFirst_try_def caches_match_def emit_def new_object_def
      fetch_def status_of_def caches_open_def clone_def put_call_def Let_def opened_def)

lemma cacheFirst_on_throw:
  assumes "match_all (caches w) (request_key r) = None" and "net r = Inl e"
  shows "cacheFirstStrategy net r w =
    (Inr (next_id w),
     w\<lparr>objects := (objects w)(next_id w \<mapsto> \<lparr>content = offlineFallback r, bodyUsed = False\<rparr>),
       next_id := Suc (next_id w),
       trace := trace w @ [CacheMatch (request_key r), NetFetch r,
                           ConsoleWarn ''[SW] Cache-first fetch failed:'' e]\<rparr>)"
  using assms
  by (simp add: cacheFirstStrategy_def cacheFirst_try_def caches_match_def emit_def new_object_def
      fetch_def Let_def)

lemma networkFirst_on_success:
  assumes "net r = Inr nr"
  shows "networkFirstStrategy net r w =
    (Inr (next_id w),
     if status nr = 200 then
       w\<lparr>objects := (objects w)(next_id w \<mapsto> \<lparr>content = nr, bodyUsed = False\<rparr>,
                               Suc (next_id w) \<mapsto> \<lparr>content = nr, bodyUsed = False\<rparr>),
         next_id := Suc (Suc (next_id w)),
         pending := pending w @ [(CACHE_NAME, r, Suc (next_id w))],
         trace := trace w @ [NetFetch r, CacheOpen CACHE_NAME, CachePut CACHE_NAME (request_key r)],
         caches := opened (caches w)\<rparr>
     else
       w\<lparr>objects := (objects w)(next_id w \<mapsto> \<lparr>content = nr, bodyUsed = False\<rparr>),
         next_id := Suc (next_id w),
         trace := trace w @ [NetFetch r]\<rparr>)"
  using assms
  by (simp add: networkFirstStrategy_def networkFirst_try_def emit_def new_object_def
      fetch_def status_of_def caches_open_def clone_def put_call_def Let_def opened_def)

lemma networkFirst_on_throw:
  assumes "net r = Inl e"
  shows "networkFirstStrategy net r w =
    (Inr (next_id w),
     w\<lparr>objects := (objects w)(next_id w \<mapsto>
          \<lparr>content = (case match_all (caches w) (request_key r) of
                        Some R \<Rightarrow> R | None \<Rightarrow> offlineFallback r),
           bodyUsed = False\<rparr>),
       next_id := Suc (next_id w),
       trace := trace w @ [NetFetch r, CacheMatch (request_key r)]\<rparr>)"
  using assms
  by (simp add: networkFirstStrategy_def networkFirst_try_def emit_def new_object_def
      fetch_def caches_match_def Let_def split: option.splits)

text \<open>
  Whatever the path, a strategy leaves the caches as they were or opens the current cache,
  and leaves at most one write in flight, for the current cache.
\<close>

lemma cacheFirst_caches:
  "caches (snd (cacheFirstStrategy net r w)) = caches w
   \<or> caches (snd (cacheFirstStrategy net r w)) = opened (caches w)"
  by (auto simp: cacheFirstStrategy_def cacheFirst_try_def caches_match_def emit_def new_object_def
      fetch_def status_of_def caches_open_def clone_def put_call_def Let_def opened_def
      split: option.splits sum.splits prod.splits if_splits)

lemma networkFirst_caches:
  "caches (snd (networkFirstStrategy net r w)) = caches w
   \<or> caches (snd (networkFirstStrategy net r w)) = opened (caches w)"
  by (auto simp: networkFirstStrategy_def networkFirst_try_def caches_match_def emit_def new_object_def
      fetch_def status_of_def caches_open_def clone_def put_call_def Let_def opened_def
      split: option.splits sum.splits prod.splits if_splits)

lemma cacheFirst_pending:
  "pending (snd (cacheFirstStrategy net r w)) = pending w
   \<or> (\<exists>i. pending (snd (cacheFirstStrategy net r w)) = pending w @ [(CACHE_NAME, r, i)])"
  by (auto simp: cacheFirstStrategy_def cacheFirst_try_def caches_match_def emit_def new_object_def
      fetch_def status_of_def caches_open_def clone_def put_call_def Let_def
      split: option.splits sum.splits prod.splits if_splits)

lemma networkFirst_pending:
  "pending (snd (networkFirstStrategy net r w)) = pending w
   \<or> (\<exists>i. pending (snd (networkFirstStrategy net r w)) = pending w @ [(CACHE_NAME, r, i)])"
  by (auto simp: networkFirstStrategy_def networkFirst_try_def caches_match_def emit_def new_object_def
      fetch_def status_of_def caches_open_def clone_def put_call_def Let_def
      split: option.splits sum.splits prod.splits if_splits)

text \<open>A write stores one entry in the cache it names, or nothing.\<close>

lemma cache_put_caches:
  "caches (snd (cache_put name r i w)) = caches w
   \<or> (\<exists>v. caches (snd (cache_put name r i w)) = put_entry name (request_key r) v (caches w))"
  by (auto simp: cache_put_def split: option.splits)

lemma stale_settle:
  assumes "pending w = [] \<or> (\<exists>i. pending w = [(CACHE_NAME, r, i)])"
  shows "stale (caches (settle w)) = stale (caches w)"
proof -
  from assms consider "pending w = []" | i where "pending w = [(CACHE_NAME, r, i)]" by blast
  then show ?thesis
  proof cases
    case 1
    then show ?thesis by (simp add: settle_def)
  next
    case 2
    then show ?thesis
      using cache_put_caches [of CACHE_NAME r i "w\<lparr>pending := []\<rparr>"]
      by (auto simp: settle_def stale_put_entry)
  qed
qed

subsection \<open>Cache-first\<close>

text \<open>
  C1. For every GET request whose key is present in the store, the cache-first strategy
  returns the stored response and performs no network fetch: the caller gets a response
  object whose contents are the entry \<open>R\<close> that \<^verbatim>\<open>caches.match\<close> finds, the only host
  call made is that lookup (no \<open>NetFetch\<close> enters the trace, whatever the network would
  have answered), and the caches are unchanged.
\<close>

theorem cacheFirst_hit:
  assumes "req_method r = ''GET''"
    and "match_all (caches w) (request_key r) = Some R"
  shows "fst (cacheFirstStrategy net r w) = Inr (next_id w)
    \<and> objects (snd (cacheFirstStrategy net r w)) (next_id w) = Some \<lparr>content = R, bodyUsed = False\<rparr>
    \<and> trace (snd (cacheFirstStrategy net r w)) = trace w @ [CacheMatch (request_key r)]
    \<and> caches (snd (cacheFirstStrategy net r w)) = caches w"
  using assms(2) by (simp add: cacheFirst_on_hit)

theorem cacheFirst_hit_witness:
  "req_method req_image = ''GET''
   \<and> match_all (caches world_hit) (request_key req_image) = Some resp_ok
   \<and> fst (cacheFirstStrategy net_down req_image world_hit) = Inr 0
   \<and> objects (snd (cacheFirstStrategy net_down req_image world_hit)) 0
       = Some \<lparr>content = resp_ok, bodyUsed = False\<rparr>
   \<and> trace (snd (cacheFirstStrategy net_down req_image world_hit))
       = [CacheMatch (request_key req_image)]"
proof -
  have g: "req_method req_image = ''GET''" by (simp add: req_image_def)
  have m: "match_all (caches world_hit) (request_key req_image) = Some resp_ok"
    by (simp add: world_hit_def world0_def)
  have z: "next_id world_hit = 0" "trace world_hit = []"
    by (simp_all add: world_hit_def world0_def)
  from cacheFirst_hit [OF g m, of net_down] g m z show ?thesis by simp
qed

text \<open>
  C2, as the source has it. For every request not present in the store (and with no other
  write in flight), the cache-first strategy fetches from the network. If and only if the
  fetched response has status exactly 200, the strategy hands a duplicate of it, a second
  object, to \<^verbatim>\<open>cache.put\<close> on the current cache under the request key, and does not
  await the write: when the strategy returns the store has no entry for the key yet. Once
  the write has completed the entry is in the store, provided the host accepts the request
  and the response; a write the host refuses stores nothing. With any other status (201
  and 404 alike) no write is made. In all cases the caller gets the network response
  itself, and its body stays unread when the write completes.
\<close>

theorem cacheFirst_miss:
  assumes "match_all (caches w) (request_key r) = None"
    and "net r = Inr nr"
    and "pending w = []"
  shows "let w' = snd (cacheFirstStrategy net r w); k = request_key r in
     fst (cacheFirstStrategy net r w) = Inr (next_id w)
     \<and> objects w' (next_id w) = Some \<lparr>content = nr, bodyUsed = False\<rparr>
     \<and> trace w' = trace w @ [CacheMatch k, NetFetch r]
          @ (if status nr = 200 then [CacheOpen CACHE_NAME, CachePut CACHE_NAME k] else [])
     \<and> pending w' = (if status nr = 200 then [(CACHE_NAME, r, Suc (next_id w))] else [])
     \<and> caches w' = (if status nr = 200 then opened (caches w) else caches w)
     \<and> match_all (caches w') k = None
     \<and> objects (settle w') (next_id w) = Some \<lparr>content = nr, bodyUsed = False\<rparr>
     \<and> (if status nr = 200 \<and> storable_request r \<and> storable_response nr
         then lookup_entry (caches (settle w')) CACHE_NAME k = Some nr
              \<and> match_all (caches (settle w')) k = Some nr
              \<and> objects w' (Suc (next_id w)) = Some \<lparr>content = nr, bodyUsed = False\<rparr>
              \<and> objects (settle w') (Suc (next_id w)) = Some \<lparr>content = nr, bodyUsed = True\<rparr>
         else caches (settle w') = caches w' \<and> match_all (caches (settle w')) k = None)"
proof (cases "status nr = 200")
  case False
  with assms show ?thesis
    by (simp add: cacheFirst_on_miss Let_def settle_def)
next
  case True
  show ?thesis
  proof (cases "storable_request r \<and> storable_response nr")
    case True
    with \<open>status nr = 200\<close> assms show ?thesis
      by (simp add: cacheFirst_on_miss Let_def settle_def cache_put_def lookup_put_entry
          match_all_put_entry opened_has_current match_all_opened)
  next
    case False
    with \<open>status nr = 200\<close> assms show ?thesis
      by (auto simp: cacheFirst_on_miss Let_def settle_def cache_put_def match_all_opened)
  qed
qed

theorem cacheFirst_miss_witness:
  "match_all (caches world0) (request_key req_image) = None \<and> pending world0 = []
   \<and> net_ok req_image = Inr resp_ok \<and> status resp_ok = 200
   \<and> storable_request req_image \<and> storable_response resp_ok
   \<and> fst (cacheFirstStrategy net_ok req_image world0) = Inr 0
   \<and> objects (snd (cacheFirstStrategy net_ok req_image world0)) 0
       = Some \<lparr>content = resp_ok, bodyUsed = False\<rparr>
   \<and> match_all (caches (snd (cacheFirstStrategy net_ok req_image world0))) (request_key req_image)
       = None
   \<and> lookup_entry (caches (settle (snd (cacheFirstStrategy net_ok req_image world0)))) CACHE_NAME
        (request_key req_image) = Some resp_ok
   \<and> net_created req_image = Inr resp_created \<and> status resp_created = 201
   \<and> fst (cacheFirstStrategy net_created req_image world0) = Inr 0
   \<and> objects (snd (cacheFirstStrategy net_created req_image world0)) 0
       = Some \<lparr>content = resp_created, bodyUsed = False\<rparr>
   \<and> pending (snd (cacheFirstStrategy net_created req_image world0)) = []
   \<and> caches (settle (snd (cacheFirstStrategy net_created req_image world0))) = []"
proof -
  have m: "match_all (caches world0) (request_key req_image) = None" "pending world0 = []"
    by (simp_all add: world0_def)
  have n1: "net_ok req_image = Inr resp_ok" by (simp add: net_ok_def)
  have n2: "net_created req_image = Inr resp_created" by (simp add: net_created_def)
  have a: "storable_request req_image" "storable_response resp_ok"
    by (simp_all add: storable_request_def storable_response_def vary_star_def req_image_def
        journal_def resp_ok_def)
  have s: "status resp_ok = 200" "status resp_created = 201" "next_id world0 = 0" "caches world0 = []"
    by (simp_all add: resp_ok_def resp_created_def world0_def)
  from cacheFirst_miss [where w = world0 and r = req_image and net = net_ok and nr = resp_ok]
    cacheFirst_miss [where w = world0 and r = req_image and net = net_created and nr = resp_created]
    m n1 n2 a s
  show ?thesis by (simp add: Let_def match_all_opened)
qed

text \<open>
  The claim C2 as stated, with a duplicate written to the store whenever the status is
  200, fails where the host refuses the write: a GET request over \<^verbatim>\<open>https:\<close> answered
  with status 200 and the header \<^verbatim>\<open>Vary: *\<close> is handed to \<^verbatim>\<open>cache.put\<close>, the call
  rejects, and the store has no entry for the request after the write has ended.
\<close>

theorem cacheFirst_miss_counterexample:
  "match_all (caches world0) (request_key req_image) = None
   \<and> net_vary req_image = Inr resp_vary \<and> status resp_vary = 200
   \<and> pending (snd (cacheFirstStrategy net_vary req_image world0)) = [(CACHE_NAME, req_image, 1)]
   \<and> fst (cache_put CACHE_NAME req_image 1
             ((snd (cacheFirstStrategy net_vary req_image world0))\<lparr>pending := []\<rparr>))
       = Inl TypeError
   \<and> lookup_entry (caches (settle (snd (cacheFirstStrategy net_vary req_image world0)))) CACHE_NAME
        (request_key req_image) = None
   \<and> match_all (caches (settle (snd (cacheFirstStrategy net_vary req_image world0))))
        (request_key req_image) = None"
proof -
  have m: "match_all (caches world0) (request_key req_image) = None" by (simp add: world0_def)
  have n: "net_vary req_image = Inr resp_vary" by (simp add: net_vary_def)
  have v: "status resp_vary = 200" "\<not> storable_response resp_vary"
    by (simp_all add: storable_response_def vary_star_def resp_vary_def trim_def is_blank_def)
  have z: "next_id world0 = 0" "pending world0 = []" "caches world0 = []"
    by (simp_all add: world0_def)
  from m n v z show ?thesis
    by (simp add: cacheFirst_on_miss [where net = net_vary and nr = resp_vary, OF m n]
        settle_def cache_put_def opened_def lookup_entry_def)
qed

subsection \<open>Network-first\<close>

text \<open>
  C3, as the source has it. For every request (with no other write in flight), the
  network-first strategy attempts the network fetch first (\<open>NetFetch\<close> is the first host
  call it adds to the trace). When the fetch resolves, the caller gets the fresh response;
  with status 200 a duplicate of it is handed to \<^verbatim>\<open>cache.put\<close> on the current cache
  under the request key, not awaited, and is in the store once the write has completed,
  provided the host accepts the request and the response (with another status no write is
  made). When the fetch throws, the store is looked up: the caller gets the stored entry
  when there is one, and the synthesized fallback only when there is none.
\<close>

theorem networkFirst_behaviour:
  assumes "pending w = []"
  shows "let w' = snd (networkFirstStrategy net r w); k = request_key r in
     fst (networkFirstStrategy net r w) = Inr (next_id w)
     \<and> (case net r of
          Inr nr \<Rightarrow>
            objects w' (next_id w) = Some \<lparr>content = nr, bodyUsed = False\<rparr>
            \<and> trace w' = trace w @ [NetFetch r]
                 @ (if status nr = 200 then [CacheOpen CACHE_NAME, CachePut CACHE_NAME k] else [])
            \<and> pending w' = (if status nr = 200 then [(CACHE_NAME, r, Suc (next_id w))] else [])
            \<and> caches w' = (if status nr = 200 then opened (caches w) else caches w)
            \<and> objects (settle w') (next_id w) = Some \<lparr>content = nr, bodyUsed = False\<rparr>
            \<and> (if status nr = 200 \<and> storable_request r \<and> storable_response nr
                then lookup_entry (caches (settle w')) CACHE_NAME k = Some nr
                     \<and> objects (settle w') (Suc (next_id w))
                         = Some \<lparr>content = nr, bodyUsed = True\<rparr>
                else caches (settle w') = caches w')
        | Inl e \<Rightarrow>
            objects w' (next_id w)
              = Some \<lparr>content = (case match_all (caches w) k of
                                    Some R \<Rightarrow> R | None \<Rightarrow> offlineFallback r),
                      bodyUsed = False\<rparr>
            \<and> trace w' = trace w @ [NetFetch r, CacheMatch k]
            \<and> pending w' = []
            \<and> caches w' = caches w)"
proof (cases "net r")
  case (Inl e)
  with assms show ?thesis by (simp add: networkFirst_on_throw Let_def)
next
  case (Inr nr)
  show ?thesis
  proof (cases "status nr = 200 \<and> storable_request r \<and> storable_response nr")
    case True
    with Inr assms show ?thesis
      by (simp add: networkFirst_on_success Let_def settle_def cache_put_def lookup_put_entry
          opened_has_current)
  next
    case False
    with Inr assms show ?thesis
      by (auto simp: networkFirst_on_success Let_def settle_def cache_put_def)
  qed
qed

theorem networkFirst_behaviour_witness:
  "pending world0 = [] \<and> pending world_hit = []
   \<and> fst (networkFirstStrategy net_ok req_font world0) = Inr 0
   \<and> objects (snd (networkFirstStrategy net_ok req_font world0)) 0
       = Some \<lparr>content = resp_ok, bodyUsed = False\<rparr>
   \<and> lookup_entry (caches (settle (snd (networkFirstStrategy net_ok req_font world0)))) CACHE_NAME
        (request_key req_font) = Some resp_ok
   \<and> objects (snd (networkFirstStrategy net_down req_image world_hit)) 0
       = Some \<lparr>content = resp_ok, bodyUsed = False\<rparr>
   \<and> objects (snd (networkFirstStrategy net_down req_image world0)) 0
       = Some \<lparr>content = offlineFallback req_image, bodyUsed = False\<rparr>"
proof -
  have p: "pending world0 = []" "pending world_hit = []"
    by (simp_all add: world0_def world_hit_def)
  have a: "storable_request req_font" "storable_response resp_ok" "status resp_ok = 200"
    by (simp_all add: storable_request_def storable_response_def vary_star_def req_font_def
        resp_ok_def)
  have z: "next_id world0 = 0" "next_id world_hit = 0" "net_ok req_font = Inr resp_ok"
    "net_down req_image = Inl (FetchError ''Failed to fetch'')"
    "match_all (caches world_hit) (request_key req_image) = Some resp_ok"
    "match_all (caches world0) (request_key req_image) = None"
    by (simp_all add: world0_def world_hit_def net_ok_def net_down_def)
  from networkFirst_behaviour [OF p(1), of net_ok req_font]
    networkFirst_behaviour [OF p(2), of net_down req_image]
    networkFirst_behaviour [OF p(1), of net_down req_image] p a z
  show ?thesis by (simp add: Let_def)
qed

text \<open>
  The claim C3 as stated, with a duplicate stored whenever the fetch succeeds with status
  200, fails where the host refuses the write: for a GET request to a font host answered
  with status 200 and the header \<^verbatim>\<open>Vary: *\<close> the call of \<^verbatim>\<open>cache.put\<close> rejects, and
  the store has no entry for the request after the write has ended.
\<close>

theorem networkFirst_counterexample:
  "net_vary req_font = Inr resp_vary \<and> status resp_vary = 200
   \<and> pending (snd (networkFirstStrategy net_vary req_font world0)) = [(CACHE_NAME, req_font, 1)]
   \<and> fst (cache_put CACHE_NAME req_font 1
             ((snd (networkFirstStrategy net_vary req_font world0))\<lparr>pending := []\<rparr>))
       = Inl TypeError
   \<and> lookup_entry (caches (settle (snd (networkFirstStrategy net_vary req_font world0)))) CACHE_NAME
        (request_key req_font) = None
   \<and> match_all (caches (settle (snd (networkFirstStrategy net_vary req_font world0))))
        (request_key req_font) = None"
proof -
  have n: "net_vary req_font = Inr resp_vary" by (simp add: net_vary_def)
  have v: "status resp_vary = 200" "\<not> storable_response resp_vary"
    by (simp_all add: storable_response_def vary_star_def resp_vary_def trim_def is_blank_def)
  have z: "next_id world0 = 0" "pending world0 = []" "caches world0 = []"
    by (simp_all add: world0_def)
  from n v z show ?thesis
    by (simp add: networkFirst_on_success [where net = net_vary and nr = resp_vary, OF n]
        settle_def cache_put_def opened_def lookup_entry_def)
qed

subsection \<open>Network failures stay inside the strategies\<close>

text \<open>
  C8. For every request, if the network fetch throws during either strategy, the failure
  is caught inside the strategy: the promise of the strategy is fulfilled (\<open>Inr\<close>, never a
  rejection) with a response object that holds either the entry present in the store or
  the synthesized fallback.
\<close>

theorem strategies_absorb_network_failure:
  assumes "net r = Inl e"
  shows "fst (cacheFirstStrategy net r w) = Inr (next_id w)
     \<and> objects (snd (cacheFirstStrategy net r w)) (next_id w)
         = Some \<lparr>content = (case match_all (caches w) (request_key r) of
                               Some R \<Rightarrow> R | None \<Rightarrow> offlineFallback r),
                 bodyUsed = False\<rparr>
     \<and> fst (networkFirstStrategy net r w) = Inr (next_id w)
     \<and> objects (snd (networkFirstStrategy net r w)) (next_id w)
         = Some \<lparr>content = (case match_all (caches w) (request_key r) of
                               Some R \<Rightarrow> R | None \<Rightarrow> offlineFallback r),
                 bodyUsed = False\<rparr>"
proof (cases "match_all (caches w) (request_key r)")
  case None
  with assms show ?thesis by (simp add: cacheFirst_on_throw networkFirst_on_throw)
next
  case (Some R)
  with assms show ?thesis by (simp add: cacheFirst_on_hit networkFirst_on_throw)
qed

theorem strategies_absorb_network_failure_witness:
  "net_down req_page = Inl (FetchError ''Failed to fetch'')
   \<and> fst (cacheFirstStrategy net_down req_page world0) = Inr 0
   \<and> map_option (\<lambda>ob. status (content ob))
        (objects (snd (cacheFirstStrategy net_down req_page world0)) 0) = Some 200
   \<and> fst (networkFirstStrategy net_down req_image world0) = Inr 0
   \<and> map_option (\<lambda>ob. status (content ob))
        (objects (snd (networkFirstStrategy net_down req_image world0)) 0) = Some 503
   \<and> map_option content (objects (snd (networkFirstStrategy net_down req_image world_hit)) 0)
       = Some resp_ok"
proof -
  have n: "net_down r = Inl (FetchError ''Failed to fetch'')" for r by (simp add: net_down_def)
  have f: "status (offlineFallback req_page) = 200" "status (offlineFallback req_image) = 503"
    by (simp_all add: offlineFallback_def req_page_def req_image_def accepts_html_def)
  from strategies_absorb_network_failure [where net = net_down and r = req_page and w = world0]
    strategies_absorb_network_failure [where net = net_down and r = req_image and w = world0]
    strategies_absorb_network_failure [where net = net_down and r = req_image and w = world_hit] n f
  show ?thesis by (simp add: world0_def world_hit_def)
qed

subsection \<open>Writes go to the current cache, reads to all caches\<close>

text \<open>
  C10. Every store write performed by either strategy targets only the current cache
  (\<open>CACHE_NAME\<close>): the caches of every other name are the same before and after a
  strategy, every write a strategy leaves in flight names the current cache, and the
  caches of every other name are still the same once that write has completed. The
  lookups of both strategies search all existing caches: when only a stale cache has an
  entry for the request, cache-first serves that entry without a fetch and network-first
  serves it when the network throws. After activation the entry is gone.
\<close>

theorem stale_generation_served:
  "stale (caches (snd (cacheFirstStrategy net r w))) = stale (caches w)
   \<and> stale (caches (snd (networkFirstStrategy net r w))) = stale (caches w)
   \<and> set (map fst (drop (length (pending w)) (pending (snd (cacheFirstStrategy net r w)))))
       \<subseteq> {CACHE_NAME}
   \<and> set (map fst (drop (length (pending w)) (pending (snd (networkFirstStrategy net r w)))))
       \<subseteq> {CACHE_NAME}
   \<and> (pending w = []
      \<longrightarrow> stale (caches (settle (snd (cacheFirstStrategy net r w)))) = stale (caches w)
          \<and> stale (caches (settle (snd (networkFirstStrategy net r w)))) = stale (caches w))
   \<and> (match_all (current (caches w)) (request_key r) = None
        \<and> match_all (stale (caches w)) (request_key r) = Some R
      \<longrightarrow> fst (cacheFirstStrategy net r w) = Inr (next_id w)
          \<and> fst (networkFirstStrategy net r w) = Inr (next_id w)
          \<and> objects (snd (cacheFirstStrategy net r w)) (next_id w)
            = Some \<lparr>content = R, bodyUsed = False\<rparr>
          \<and> trace (snd (cacheFirstStrategy net r w)) = trace w @ [CacheMatch (request_key r)]
          \<and> (case net r of
                Inl e \<Rightarrow> objects (snd (networkFirstStrategy net r w)) (next_id w)
                           = Some \<lparr>content = R, bodyUsed = False\<rparr>
              | Inr nr \<Rightarrow> objects (snd (networkFirstStrategy net r w)) (next_id w)
                           = Some \<lparr>content = nr, bodyUsed = False\<rparr>)
          \<and> match_all (caches (snd (onActivate w))) (request_key r) = None)"
proof -
  have a: "stale (caches (snd (cacheFirstStrategy net r w))) = stale (caches w)"
    using cacheFirst_caches [of net r w] by (auto simp: stale_opened)
  have b: "stale (caches (snd (networkFirstStrategy net r w))) = stale (caches w)"
    using networkFirst_caches [of net r w] by (auto simp: stale_opened)
  have p1: "set (map fst (drop (length (pending w)) (pending (snd (cacheFirstStrategy net r w)))))
      \<subseteq> {CACHE_NAME}"
    using cacheFirst_pending [of net r w] by auto
  have p2: "set (map fst (drop (length (pending w)) (pending (snd (networkFirstStrategy net r w)))))
      \<subseteq> {CACHE_NAME}"
    using networkFirst_pending [of net r w] by auto
  have s: "stale (caches (settle (snd (cacheFirstStrategy net r w)))) = stale (caches w)
      \<and> stale (caches (settle (snd (networkFirstStrategy net r w)))) = stale (caches w)"
    if e: "pending w = []"
  proof -
    have "stale (caches (settle (snd (cacheFirstStrategy net r w))))
        = stale (caches (snd (cacheFirstStrategy net r w)))"
      using cacheFirst_pending [of net r w] e by (intro stale_settle [where r = r]) auto
    moreover have "stale (caches (settle (snd (networkFirstStrategy net r w))))
        = stale (caches (snd (networkFirstStrategy net r w)))"
      using networkFirst_pending [of net r w] e by (intro stale_settle [where r = r]) auto
    ultimately show ?thesis using a b by simp
  qed
  have c: "fst (cacheFirstStrategy net r w) = Inr (next_id w)
      \<and> fst (networkFirstStrategy net r w) = Inr (next_id w)
      \<and> objects (snd (cacheFirstStrategy net r w)) (next_id w)
        = Some \<lparr>content = R, bodyUsed = False\<rparr>
      \<and> trace (snd (cacheFirstStrategy net r w)) = trace w @ [CacheMatch (request_key r)]
      \<and> (case net r of
            Inl e \<Rightarrow> objects (snd (networkFirstStrategy net r w)) (next_id w)
                       = Some \<lparr>content = R, bodyUsed = False\<rparr>
          | Inr nr \<Rightarrow> objects (snd (networkFirstStrategy net r w)) (next_id w)
                       = Some \<lparr>content = nr, bodyUsed = False\<rparr>)
      \<and> match_all (caches (snd (onActivate w))) (request_key r) = None"
    if h: "match_all (current (caches w)) (request_key r) = None"
       "match_all (stale (caches w)) (request_key r) = Some R"
  proof -
    from h have m: "match_all (caches w) (request_key r) = Some R"
      by (simp add: match_all_stale)
    show ?thesis
    proof (cases "net r")
      case (Inl e)
      with m h(1) show ?thesis
        by (simp add: cacheFirst_on_hit networkFirst_on_throw onActivate_world)
    next
      case (Inr nr)
      with m h(1) show ?thesis
        by (simp add: cacheFirst_on_hit networkFirst_on_success onActivate_world)
    qed
  qed
  from a b p1 p2 s c show ?thesis by blast
qed

theorem stale_generation_served_witness:
  "pending world_two = []
   \<and> stale (caches (settle (snd (cacheFirstStrategy net_ok req_image world_two))))
       = stale (caches world_two)
   \<and> stale (caches (settle (snd (networkFirstStrategy net_ok req_image world_two))))
       = stale (caches world_two)
   \<and> match_all (current (caches world_two)) (request_key req_image) = None
   \<and> match_all (stale (caches world_two)) (request_key req_image) = Some resp_old
   \<and> objects (snd (cacheFirstStrategy net_ok req_image world_two)) 0
       = Some \<lparr>content = resp_old, bodyUsed = False\<rparr>
   \<and> trace (snd (cacheFirstStrategy net_ok req_image world_two))
       = [CacheMatch (request_key req_image)]
   \<and> objects (snd (networkFirstStrategy net_down req_image world_two)) 0
       = Some \<lparr>content = resp_old, bodyUsed = False\<rparr>
   \<and> match_all (caches (snd (onActivate world_two))) (request_key req_image) = None"
proof -
  have d: "''space-observation-journal-v0'' \<noteq> CACHE_NAME" by (simp add: CACHE_NAME_def)
  have h: "match_all (current (caches world_two)) (request_key req_image) = None"
    "match_all (stale (caches world_two)) (request_key req_image) = Some resp_old"
    using d by (simp_all add: world_two_def world0_def current_def stale_def)
  have z: "next_id world_two = 0" "trace world_two = []" "pending world_two = []"
    "net_down req_image = Inl (FetchError ''Failed to fetch'')"
    by (simp_all add: world_two_def world0_def net_down_def)
  from stale_generation_served [where w = world_two and r = req_image and net = net_ok and R = resp_old]
    stale_generation_served [where w = world_two and r = req_image and net = net_down and R = resp_old]
    h z
  show ?thesis by simp
qed

subsection \<open>The fallback\<close>

text \<open>
  \<open>offlineFallback\<close> is a function of the request alone. For a document navigation or a
  request that accepts HTML it answers with the fixed page and status 200; for every
  other request it answers with status 503 and the seven characters \<^verbatim>\<open>Offline\<close>.
\<close>

lemma offlineFallback_html:
  "destination r = ''document'' \<or> accepts_html r \<Longrightarrow>
     offlineFallback r =
       \<lparr>status = 200, statusText = [],
        resp_headers = [(''content-type'', ''text/html; charset=utf-8'')], body = OFFLINE_PAGE\<rparr>"
  by (simp add: offlineFallback_def)

lemma offlineFallback_other:
  "\<not> (destination r = ''document'' \<or> accepts_html r) \<Longrightarrow>
     status (offlineFallback r) = 503 \<and> body (offlineFallback r) = ''Offline''"
  by (simp add: offlineFallback_def)

text \<open>
  C4. The claim has the response for a request that is neither a document navigation nor
  accepts HTML carry status 503 and an empty body, as the comment in the source says
  (\<^verbatim>\<open>return an empty 503\<close>). The source passes \<^verbatim>\<open>'Offline'\<close> as the body: for the image
  request \<open>req_image\<close> the status is 503 and the body is not empty.
\<close>

theorem offlineFallback_body_not_empty:
  "destination req_image \<noteq> ''document'' \<and> \<not> accepts_html req_image
   \<and> offlineFallback req_image =
       \<lparr>status = 503, statusText = ''Service Unavailable'',
        resp_headers = [(''content-type'', ''text/plain;charset=UTF-8'')], body = ''Offline''\<rparr>
   \<and> body (offlineFallback req_image) \<noteq> []"
  by (simp add: offlineFallback_def accepts_html_def req_image_def)

subsection \<open>The fetch listener\<close>

text \<open>The rule of the fetch listener, as its guards are written.\<close>

lemma onFetch_rule:
  "onFetch net r w =
     (if req_method r \<noteq> ''GET'' \<or> \<not> prefix ''http'' (protocol (url r)) then (None, w)
      else if hostname (url r) = ''fonts.googleapis.com'' \<or> hostname (url r) = ''fonts.gstatic.com''
      then (Some (fst (networkFirstStrategy net r w)), snd (networkFirstStrategy net r w))
      else (Some (fst (cacheFirstStrategy net r w)), snd (cacheFirstStrategy net r w)))"
  by (simp add: onFetch_def split: prod.splits)

text \<open>
  Among the protocols a fetch event can carry, those that begin with \<^verbatim>\<open>http\<close> are
  \<^verbatim>\<open>http:\<close> and \<^verbatim>\<open>https:\<close>: there the guard \<^verbatim>\<open>url.protocol.startsWith('http')\<close>
  of the source says that the request is http(s).
\<close>

lemma fetch_event_protocol_http:
  "fetch_event_protocol p \<Longrightarrow> prefix ''http'' p \<longleftrightarrow> p = ''http:'' \<or> p = ''https:''"
  by (auto simp: fetch_event_protocol_def)

text \<open>
  C7. The fetch listener decides, for every request a fetch event can carry, by an
  ordered rule: a request whose method is not GET is not intercepted; a GET request whose
  protocol is not http(s) is not intercepted; in both cases the world is left as it was
  (no strategy runs, the store is not touched). A remaining request to one of the two
  font hosts is answered by the network-first strategy, and every other remaining request
  by the cache-first strategy.
\<close>

theorem onFetch_routing:
  assumes "fetch_event_protocol (protocol (url r))"
  shows "(req_method r \<noteq> ''GET'' \<longrightarrow> onFetch net r w = (None, w))
   \<and> (req_method r = ''GET'' \<and> protocol (url r) \<noteq> ''http:'' \<and> protocol (url r) \<noteq> ''https:''
      \<longrightarrow> onFetch net r w = (None, w))
   \<and> (req_method r = ''GET'' \<and> (protocol (url r) = ''http:'' \<or> protocol (url r) = ''https:'')
        \<and> (hostname (url r) = ''fonts.googleapis.com'' \<or> hostname (url r) = ''fonts.gstatic.com'')
      \<longrightarrow> onFetch net r w
            = (Some (fst (networkFirstStrategy net r w)), snd (networkFirstStrategy net r w)))
   \<and> (req_method r = ''GET'' \<and> (protocol (url r) = ''http:'' \<or> protocol (url r) = ''https:'')
        \<and> hostname (url r) \<noteq> ''fonts.googleapis.com'' \<and> hostname (url r) \<noteq> ''fonts.gstatic.com''
      \<longrightarrow> onFetch net r w
            = (Some (fst (cacheFirstStrategy net r w)), snd (cacheFirstStrategy net r w)))"
  using fetch_event_protocol_http [OF assms] by (auto simp: onFetch_rule)

theorem onFetch_routing_witness:
  "fetch_event_protocol (protocol (url req_post))
   \<and> req_method req_post \<noteq> ''GET'' \<and> onFetch net_ok req_post world_hit = (None, world_hit)
   \<and> fetch_event_protocol (protocol (url req_extension))
   \<and> req_method req_extension = ''GET'' \<and> protocol (url req_extension) = ''chrome-extension:''
   \<and> onFetch net_ok req_extension world_hit = (None, world_hit)
   \<and> fetch_event_protocol (protocol (url req_font))
   \<and> req_method req_font = ''GET'' \<and> protocol (url req_font) = ''https:''
   \<and> hostname (url req_font) = ''fonts.gstatic.com''
   \<and> onFetch net_ok req_font world0
       = (Some (fst (networkFirstStrategy net_ok req_font world0)),
          snd (networkFirstStrategy net_ok req_font world0))
   \<and> fetch_event_protocol (protocol (url req_image))
   \<and> req_method req_image = ''GET'' \<and> protocol (url req_image) = ''https:''
   \<and> hostname (url req_image) = ''journal.example''
   \<and> onFetch net_ok req_image world0
       = (Some (fst (cacheFirstStrategy net_ok req_image world0)),
          snd (cacheFirstStrategy net_ok req_image world0))"
proof -
  have a: "fetch_event_protocol (protocol (url req_post))" "req_method req_post \<noteq> ''GET''"
    by (simp_all add: fetch_event_protocol_def req_post_def req_image_def journal_def)
  have b: "fetch_event_protocol (protocol (url req_extension))" "req_method req_extension = ''GET''"
    "protocol (url req_extension) = ''chrome-extension:''"
    by (simp_all add: fetch_event_protocol_def req_extension_def req_image_def)
  have c: "fetch_event_protocol (protocol (url req_font))" "req_method req_font = ''GET''"
    "protocol (url req_font) = ''https:''" "hostname (url req_font) = ''fonts.gstatic.com''"
    by (simp_all add: fetch_event_protocol_def req_font_def)
  have d: "fetch_event_protocol (protocol (url req_image))" "req_method req_image = ''GET''"
    "protocol (url req_image) = ''https:''" "hostname (url req_image) = ''journal.example''"
    by (simp_all add: fetch_event_protocol_def req_image_def journal_def)
  have 1: "onFetch net_ok req_post world_hit = (None, world_hit)"
    using onFetch_routing [OF a(1), of net_ok world_hit] a(2) by simp
  have 2: "onFetch net_ok req_extension world_hit = (None, world_hit)"
    using onFetch_routing [OF b(1), of net_ok world_hit] b(2,3) by simp
  have 3: "onFetch net_ok req_font world0
       = (Some (fst (networkFirstStrategy net_ok req_font world0)),
          snd (networkFirstStrategy net_ok req_font world0))"
    using onFetch_routing [OF c(1), of net_ok world0] c(2,3,4) by simp
  have 4: "onFetch net_ok req_image world0
       = (Some (fst (cacheFirstStrategy net_ok req_image world0)),
          snd (cacheFirstStrategy net_ok req_image world0))"
    using onFetch_routing [OF d(1), of net_ok world0] d(2,3,4) by simp
  from a b c d 1 2 3 4 show ?thesis by simp
qed

subsection \<open>The install listener\<close>

lemma emit_all_trace: "emit_all es w = w\<lparr>trace := trace w @ es\<rparr>"
  by (induction es arbitrary: w) (simp_all add: emit_def)

text \<open>
  The promise handed to \<^verbatim>\<open>event.waitUntil\<close> is fulfilled whatever the network does: the
  \<^verbatim>\<open>.catch\<close> at the end of the chain turns every rejection into a value.
\<close>

lemma onInstall_never_rejects: "fst (onInstall net loc w) = Inr ()"
  by (simp add: onInstall_def split: prod.splits sum.splits)

text \<open>
  When \<^verbatim>\<open>addAll\<close> rejects, the current cache exists (it was opened) and holds what it
  held before, \<^verbatim>\<open>skipWaiting\<close> is not called and the error is logged.
\<close>

lemma onInstall_on_failure:
  assumes "addAll_fetch net (map (asset_request loc) PRECACHE_ASSETS) = Inl e"
  shows "caches (snd (onInstall net loc w)) = opened (caches w)
    \<and> filter (\<lambda>x. x = SkipWaiting) (trace (snd (onInstall net loc w)))
        = filter (\<lambda>x. x = SkipWaiting) (trace w)
    \<and> ConsoleWarn ''[SW] Pre-cache failed:'' e \<in> set (trace (snd (onInstall net loc w)))"
  using assms
  by (simp add: onInstall_def install_chain_def caches_open_def cache_addAll_def emit_def
      emit_all_trace opened_def Let_def)

lemma onInstall_on_success:
  assumes "addAll_fetch net (map (asset_request loc) PRECACHE_ASSETS) = Inr ps"
  shows "caches (snd (onInstall net loc w)) = put_entries CACHE_NAME ps (opened (caches w))
    \<and> filter (\<lambda>x. x = SkipWaiting) (trace (snd (onInstall net loc w)))
        = filter (\<lambda>x. x = SkipWaiting) (trace w) @ [SkipWaiting]"
  using assms
  by (simp add: onInstall_def install_chain_def caches_open_def cache_addAll_def emit_def
      emit_all_trace opened_def Let_def skipWaiting_def)

text \<open>
  C5. The claim has a failed precache surface as a failed install, as the comment in the
  source says (\<^verbatim>\<open>if any fail the install fails\<close>). With a network that serves every
  asset but \<^verbatim>\<open>/icon-512.png\<close>, \<^verbatim>\<open>addAll\<close> rejects, nothing is stored,
  \<^verbatim>\<open>skipWaiting\<close> is not called and the error is logged; but the promise handed to
  \<^verbatim>\<open>event.waitUntil\<close> is fulfilled, so the host counts the installation as a success
  and goes on to activate the worker over an empty cache.
\<close>

theorem onInstall_swallows_failure:
  "addAll_fetch net_icon_missing (map (asset_request journal) PRECACHE_ASSETS) = Inl TypeError
   \<and> fst (onInstall net_icon_missing journal world0) = Inr ()
   \<and> caches (snd (onInstall net_icon_missing journal world0)) = [(CACHE_NAME, Map.empty)]
   \<and> SkipWaiting \<notin> set (trace (snd (onInstall net_icon_missing journal world0)))
   \<and> ConsoleWarn ''[SW] Pre-cache failed:'' TypeError
        \<in> set (trace (snd (onInstall net_icon_missing journal world0)))"
  by (simp add: onInstall_def install_chain_def caches_open_def cache_addAll_def emit_def
      emit_all_trace PRECACHE_ASSETS_def asset_request_def net_icon_missing_def resp_ok_def
      storable_request_def storable_response_def vary_star_def journal_def world0_def Let_def)

subsection \<open>The activate listener\<close>

text \<open>
  C6, as the source has it. Activation deletes every existing cache whose name differs
  from \<open>CACHE_NAME\<close>, and claims the open clients after all the deletions: \<open>ClientsClaim\<close>
  is the last entry of the trace, behind every \<open>CacheDelete\<close>. Afterwards the names listed
  are those of the initial names that equal \<open>CACHE_NAME\<close>: no other cache remains, the
  entries of the current cache are kept, and when the current cache existed before (under
  one name, as the host keeps them) exactly it remains.
\<close>

theorem onActivate_sweeps:
  "fst (onActivate w) = Inr ()
   \<and> caches (snd (onActivate w)) = current (caches w)
   \<and> map fst (caches (snd (onActivate w))) = filter (\<lambda>n. n = CACHE_NAME) (map fst (caches w))
   \<and> trace (snd (onActivate w)) =
        trace w
        @ [ConsoleLog (''[SW] Activating new Service Worker'' @ ellipsis), CacheKeys]
        @ deletions (filter (\<lambda>name. name \<noteq> CACHE_NAME) (map fst (caches w)))
        @ [ConsoleLog (''[SW] Activation complete '' @ em_dash @ '' claiming all clients''),
           ClientsClaim]
   \<and> (CACHE_NAME \<in> set (map fst (caches w))
        \<longrightarrow> set (map fst (caches (snd (onActivate w)))) = {CACHE_NAME})
   \<and> (CACHE_NAME \<notin> set (map fst (caches w))
        \<longrightarrow> caches (snd (onActivate w)) = [])"
proof -
  have absent: "current cs = []" if "CACHE_NAME \<notin> set (map fst cs)" for cs
    using that by (induction cs) (auto simp: current_def)
  show ?thesis
    unfolding onActivate_world by (simp add: map_fst_current absent) auto
qed

theorem onActivate_sweeps_witness:
  "CACHE_NAME \<in> set (map fst (caches world_two))
   \<and> map fst (caches world_two) = [''space-observation-journal-v0'', CACHE_NAME]
   \<and> set (map fst (caches (snd (onActivate world_two)))) = {CACHE_NAME}
   \<and> deletions (filter (\<lambda>name. name \<noteq> CACHE_NAME) (map fst (caches world_two)))
       = [ConsoleLogName ''[SW] Deleting old cache:'' ''space-observation-journal-v0'',
          CacheDelete ''space-observation-journal-v0'']
   \<and> CACHE_NAME \<notin> set (map fst (caches world0))
   \<and> caches (snd (onActivate world0)) = []"
proof -
  have c: "map fst (caches world_two) = [''space-observation-journal-v0'', CACHE_NAME]"
    by (simp add: world_two_def world0_def)
  have d: "''space-observation-journal-v0'' \<noteq> CACHE_NAME" by (simp add: CACHE_NAME_def)
  have e: "CACHE_NAME \<notin> set (map fst (caches world0))" by (simp add: world0_def)
  have 1: "set (map fst (caches (snd (onActivate world_two)))) = {CACHE_NAME}"
    using onActivate_sweeps [of world_two, THEN conjunct2, THEN conjunct2, THEN conjunct2,
        THEN conjunct2, THEN conjunct1] c
    by simp
  have 2: "caches (snd (onActivate world0)) = []"
    using onActivate_sweeps [of world0, THEN conjunct2, THEN conjunct2, THEN conjunct2,
        THEN conjunct2, THEN conjunct2] e
    by simp
  from c d e 1 2 show ?thesis by (simp add: deletions_def)
qed

text \<open>
  The claim C6 as stated, with exactly the current generation remaining for any initial
  set of generation tags, fails where the current cache is not among them: activation
  creates no cache, and from the single stale cache of \<open>world_stale\<close> none remains.
\<close>

theorem onActivate_counterexample:
  "map fst (caches world_stale) = [''space-observation-journal-v0'']
   \<and> map fst (caches (snd (onActivate world_stale))) = []
   \<and> set (map fst (caches (snd (onActivate world_stale)))) \<noteq> {CACHE_NAME}"
  by (simp add: onActivate_world current_def world_stale_def world0_def CACHE_NAME_def)

subsection \<open>The message listener\<close>

lemma onMessage_world:
  "onMessage d w =
     (Inr (),
      if (case d of JObject ps \<Rightarrow> map_of ps ''type'' = Some (JString ''SKIP_WAITING'') | _ \<Rightarrow> False)
      then w\<lparr>trace := trace w @ [SkipWaiting]\<rparr> else w)"
  by (cases d) (auto simp: onMessage_def skipWaiting_def emit_def split: option.splits)

text \<open>
  C9. The message handler calls \<^verbatim>\<open>skipWaiting\<close> exactly once (one \<open>SkipWaiting\<close> is added
  to the trace, and nothing else changes) when the message is an object whose \<^verbatim>\<open>type\<close>
  is the string \<^verbatim>\<open>SKIP_WAITING\<close>. For every other message (another type, no type, a
  value that is not an object, \<^verbatim>\<open>null\<close>) it leaves the world as it was, and in no case
  does it raise an error.
\<close>

theorem onMessage_skip_waiting:
  "fst (onMessage d w) = Inr ()
   \<and> snd (onMessage d w) =
       (if (case d of JObject ps \<Rightarrow> map_of ps ''type'' = Some (JString ''SKIP_WAITING'')
                    | _ \<Rightarrow> False)
        then w\<lparr>trace := trace w @ [SkipWaiting]\<rparr> else w)"
  by (simp add: onMessage_world)

theorem onMessage_skip_waiting_witness:
  "onMessage (JObject [(''type'', JString ''SKIP_WAITING'')]) world0
     = (Inr (), world0\<lparr>trace := [SkipWaiting]\<rparr>)
   \<and> onMessage (JObject [(''type'', JString ''PING'')]) world0 = (Inr (), world0)
   \<and> onMessage (JObject [(''kind'', JString ''SKIP_WAITING'')]) world0 = (Inr (), world0)
   \<and> onMessage (JString ''SKIP_WAITING'') world0 = (Inr (), world0)
   \<and> onMessage JNull world0 = (Inr (), world0)"
  using onMessage_skip_waiting [of "JObject [(''type'', JString ''SKIP_WAITING'')]" world0]
    onMessage_skip_waiting [of "JObject [(''type'', JString ''PING'')]" world0]
    onMessage_skip_waiting [of "JObject [(''kind'', JString ''SKIP_WAITING'')]" world0]
    onMessage_skip_waiting [of "JString ''SKIP_WAITING''" world0]
    onMessage_skip_waiting [of JNull world0]
  by (simp add: prod_eq_iff world0_def)

end
